theory Spec2Isabelle
  imports Main
begin

section \<open>Python objects\<close>

text \<open>
  The library works on arbitrary Python objects. The model keeps the objects the code and
  its tests touch: the built-in values, instances of user classes, and instances of the
  class \<open>PipeVerb\<close> of \<open>pipes.py\<close>. A \<open>PipeVerb\<close> stores a function object; function
  objects live in a store and are named by their address, so that two names of one
  function object (a dispatch function and the verb made from it) see the same registry.
\<close>

type_synonym ref = nat

datatype pytype =
    TObject | TNoneType | TNotImplementedType | TInt | TStr | TList
  | TPipeVerb
  | TClass nat

datatype pyexn =
    TypeError | AttributeError | RecursionError | ValueError
  | NotImplementedError string
  | OtherError string

text \<open>
  \<open>PipeVerb func args kwargs\<close> is the object built by \<open>PipeVerb.__init__\<close>: the three
  attributes \<open>pipe_func\<close>, \<open>args\<close>, \<open>kwargs\<close> are stored as given.
\<close>

datatype pyval =
    PyNone
  | PyNotImplemented
  | PyInt int
  | PyStr string
  | PyList "pyval list"
  | PyInstance nat "pyval list"
  | PipeVerb (pipe_func: ref) (args: "pyval list") (kwargs: "(string \<times> pyval) list")

fun type_of :: "pyval \<Rightarrow> pytype" where
  "type_of PyNone = TNoneType"
| "type_of PyNotImplemented = TNotImplementedType"
| "type_of (PyInt _) = TInt"
| "type_of (PyStr _) = TStr"
| "type_of (PyList _) = TList"
| "type_of (PyInstance c _) = TClass c"
| "type_of (PipeVerb _ _ _) = TPipeVerb"

fun isinstance_PipeVerb :: "pyval \<Rightarrow> bool" where
  "isinstance_PipeVerb (PipeVerb _ _ _) = True"
| "isinstance_PipeVerb _ = False"

text \<open>A call either raises (\<open>Inl\<close>) or returns (\<open>Inr\<close>).\<close>

type_synonym outcome = "pyexn + pyval"

type_synonym pykwargs = "(string \<times> pyval) list"

text \<open>The body of a \<open>def\<close>: positional arguments, keyword arguments, outcome.\<close>

type_synonym impl = "pyval list \<Rightarrow> pykwargs \<Rightarrow> outcome"

record pyfunction =
  fn_body :: impl
  fn_name :: string
  fn_doc :: "string option"

text \<open>
  Function objects. \<open>VerbFactory func\<close> is the closure \<open>decorated\<close> that \<open>pipeverb\<close>
  returns; \<open>Dispatcher\<close> is a dispatch function with its default implementation and its
  registry. \<open>fo_register\<close> is the attribute \<open>register\<close>: the address of the dispatch
  function whose registry it fills, or \<open>None\<close> when the object has no such attribute.
\<close>

datatype callable =
    Plain impl
  | Dispatcher impl "pytype \<Rightarrow> impl option"
  | VerbFactory ref

record fobj =
  fo_call :: callable
  fo_name :: string
  fo_doc :: "string option"
  fo_register :: "ref option"

text \<open>
  An implementation of \<open>__rshift__\<close> held by a class: a method of the user, with the
  value of its attribute \<open>pipeoperator\<close> (\<open>False\<close> when absent), or the closure
  \<open>__rshift__\<close> that \<open>make_pipesource\<close> builds and marks with \<open>pipeoperator = True\<close>.
\<close>

datatype opfun =
    UserOp "pyval \<Rightarrow> pyval \<Rightarrow> outcome" bool
  | PipeOperator

fun pipeoperator :: "opfun \<Rightarrow> bool" where
  "pipeoperator (UserOp _ m) = m"
| "pipeoperator PipeOperator = True"

record pyclass =
  ancestors :: "pytype list"
  rshift_attr :: "opfun option"
  orig_rshift_attr :: "opfun option"
  rrshift_attr :: "(pyval \<Rightarrow> pyval \<Rightarrow> outcome) option"

record pystate =
  classes :: "pytype \<Rightarrow> pyclass"
  funcs :: "fobj list"

section \<open>Attribute lookup and calls\<close>

fun first_defined :: "('k \<Rightarrow> 'a option) \<Rightarrow> 'k list \<Rightarrow> 'a option" where
  "first_defined m [] = None"
| "first_defined m (k # ks) = (case m k of Some v \<Rightarrow> Some v | None \<Rightarrow> first_defined m ks)"

text \<open>
  \<open>getattr(cls, name)\<close> on a class, or on one of its instances for a method: the class
  itself first, then its ancestors in method resolution order.
\<close>

definition lookup_attr :: "pystate \<Rightarrow> pytype \<Rightarrow> (pyclass \<Rightarrow> 'a option) \<Rightarrow> 'a option" where
  "lookup_attr s t sel = first_defined (\<lambda>c. sel (classes s c)) (t # ancestors (classes s t))"

definition get_func :: "pystate \<Rightarrow> ref \<Rightarrow> fobj option" where
  "get_func s r = (if r < length (funcs s) then Some (funcs s ! r) else None)"

text \<open>
  Modelled from the spec: the Dispatch Adapter (section 4.3), Python's
  \<open>functools.singledispatch\<close>, which \<open>pipes.py\<close> imports and re-exports. On a call it
  takes the runtime type of the first positional argument and runs the implementation
  registered for the most specific type in that type's resolution order, or the default
  one if none matches.
\<close>

definition dispatch :: "pystate \<Rightarrow> (pytype \<Rightarrow> impl option) \<Rightarrow> impl \<Rightarrow> pytype \<Rightarrow> impl" where
  "dispatch s reg dflt t =
     (case first_defined reg (t # ancestors (classes s t)) of
        Some g \<Rightarrow> g
      | None \<Rightarrow> dflt)"

text \<open>
  \<open>func(*pos, **kw)\<close> for the function object at address \<open>func\<close>. An address that holds
  no function object stands for an object that is not callable.
\<close>

definition call :: "pystate \<Rightarrow> ref \<Rightarrow> pyval list \<Rightarrow> pykwargs \<Rightarrow> outcome" where
  "call s func pos kw =
     (case get_func s func of
        None \<Rightarrow> Inl TypeError
      | Some fo \<Rightarrow>
          (case fo_call fo of
             Plain g \<Rightarrow> g pos kw
           | Dispatcher dflt reg \<Rightarrow>
               (case pos of
                  [] \<Rightarrow> Inl TypeError
                | x # _ \<Rightarrow> dispatch s reg dflt (type_of x) pos kw)
           | VerbFactory f \<Rightarrow> Inr (PipeVerb f pos kw)))"

section \<open>The class PipeVerb\<close>

text \<open>
  \<open>PipeVerb.__rrshift__(self, input)\<close>:
  \<open>return self.pipe_func(input, *self.args, **self.kwargs)\<close>.
  Only a \<open>PipeVerb\<close> has the method.
\<close>

fun rrshift :: "pystate \<Rightarrow> pyval \<Rightarrow> pyval \<Rightarrow> outcome" where
  "rrshift s (PipeVerb func as kw) input = call s func (input # as) kw"
| "rrshift s _ input = Inl AttributeError"

section \<open>pipeverb\<close>

text \<open>
  \<open>functools.wraps(func)\<close> gives \<open>decorated\<close> the name and the docstring of \<open>func\<close>, and
  leaves the closure's own (\<open>decorated\<close>, no docstring) when \<open>func\<close> has none to give.
  \<open>if hasattr(func, 'register'): decorated.register = func.register\<close> copies the
  attribute. The new function object is allocated at the next free address.
\<close>

definition pipeverb :: "pystate \<Rightarrow> ref \<Rightarrow> ref \<times> pystate" where
  "pipeverb s func =
     (let decorated =
        (case get_func s func of
           Some fo \<Rightarrow>
             \<lparr>fo_call = VerbFactory func, fo_name = fo_name fo, fo_doc = fo_doc fo,
              fo_register = fo_register fo\<rparr>
         | None \<Rightarrow>
             \<lparr>fo_call = VerbFactory func, fo_name = ''decorated'', fo_doc = None,
              fo_register = None\<rparr>)
      in (length (funcs s), s\<lparr>funcs := funcs s @ [decorated]\<rparr>))"

section \<open>singledispatch\<close>

text \<open>
  Modelled from the spec: \<open>singledispatch(func)\<close> (section 4.3) wraps a default
  function, keeps its name and docstring, starts with an empty registry and exposes
  \<open>register\<close>, bound to its own registry.
\<close>

definition singledispatch :: "pystate \<Rightarrow> pyfunction \<Rightarrow> ref \<times> pystate" where
  "singledispatch s fn =
     (let d = length (funcs s) in
      (d, s\<lparr>funcs := funcs s @
            [\<lparr>fo_call = Dispatcher (fn_body fn) (\<lambda>_. None), fo_name = fn_name fn,
              fo_doc = fn_doc fn, fo_register = Some d\<rparr>]\<rparr>))"

text \<open>
  Modelled from the spec: the registration call of the dispatch function at address
  \<open>d\<close> (section 3, Dispatch Registry) associates the implementation with the type in the
  registry of \<open>d\<close>; a later registration for the same type replaces the earlier one.
\<close>

definition register :: "pystate \<Rightarrow> ref \<Rightarrow> pytype \<Rightarrow> impl \<Rightarrow> pystate" where
  "register s d T g =
     (case get_func s d of
        None \<Rightarrow> s
      | Some fo \<Rightarrow>
          (case fo_call fo of
             Dispatcher dflt reg \<Rightarrow>
               s\<lparr>funcs := (funcs s)[d := fo\<lparr>fo_call := Dispatcher dflt (reg(T \<mapsto> g))\<rparr>]\<rparr>
           | _ \<Rightarrow> s))"

text \<open>
  \<open>f.register(T)(g)\<close> for the function object at address \<open>f\<close>: the attribute lookup
  fails with \<open>AttributeError\<close> when \<open>f\<close> has no \<open>register\<close>.
\<close>

definition call_register :: "pystate \<Rightarrow> ref \<Rightarrow> pytype \<Rightarrow> impl \<Rightarrow> pyexn option \<times> pystate" where
  "call_register s f T g =
     (case get_func s f of
        None \<Rightarrow> (Some AttributeError, s)
      | Some fo \<Rightarrow>
          (case fo_register fo of
             None \<Rightarrow> (Some AttributeError, s)
           | Some d \<Rightarrow> (None, register s d T g)))"

section \<open>singledispatch\_pipeverb\<close>

text \<open>\<open>return pipeverb(singledispatch(func))\<close>\<close>

definition singledispatch_pipeverb :: "pystate \<Rightarrow> pyfunction \<Rightarrow> ref \<times> pystate" where
  "singledispatch_pipeverb s fn =
     (case singledispatch s fn of (d, s1) \<Rightarrow> pipeverb s1 d)"

section \<open>make\_pipesource\<close>

text \<open>
  Attributes of the built-in types cannot be assigned: the assignment raises
  \<open>TypeError\<close>. User classes, and \<open>PipeVerb\<close>, accept it.
\<close>

fun immutable_type :: "pytype \<Rightarrow> bool" where
  "immutable_type (TClass _) = False"
| "immutable_type TPipeVerb = False"
| "immutable_type _ = True"

text \<open>
  \<open>make_pipesource(cls)\<close>. The guard is
  \<open>hasattr(cls, '__rshift__') and not getattr(cls.__rshift__, 'pipeoperator', False)\<close>;
  under it the current implementation is saved as \<open>cls.__orig_rshift__\<close> and the marked
  closure is installed as \<open>cls.__rshift__\<close>. The result is the exception raised, if any,
  and the state after the call.
\<close>

definition make_pipesource :: "pystate \<Rightarrow> pytype \<Rightarrow> pyexn option \<times> pystate" where
  "make_pipesource s cls =
     (case lookup_attr s cls rshift_attr of
        None \<Rightarrow> (None, s)
      | Some f \<Rightarrow>
          if pipeoperator f then (None, s)
          else if immutable_type cls then (Some TypeError, s)
          else (None,
                s\<lparr>classes := (classes s)
                    (cls := (classes s cls)\<lparr>orig_rshift_attr := Some f,
                                            rshift_attr := Some PipeOperator\<rparr>)\<rparr>))"

text \<open>
  Calling an implementation of \<open>__rshift__\<close> on \<open>self\<close> and \<open>other\<close>. The closure of
  \<open>make_pipesource\<close> is
  \<open>if isinstance(other, PipeVerb): return other.__rrshift__(self)
    else: return self.__orig_rshift__(other)\<close>.
  \<open>self.__orig_rshift__\<close> is looked up when the closure runs: a missing attribute raises
  \<open>AttributeError\<close>, and a saved implementation that is the closure again calls itself
  until Python raises \<open>RecursionError\<close>.
\<close>

definition call_op :: "pystate \<Rightarrow> opfun \<Rightarrow> pyval \<Rightarrow> pyval \<Rightarrow> outcome" where
  "call_op s f self other =
     (case f of
        UserOp g _ \<Rightarrow> g self other
      | PipeOperator \<Rightarrow>
          if isinstance_PipeVerb other then rrshift s other self
          else (case lookup_attr s (type_of self) orig_rshift_attr of
                  None \<Rightarrow> Inl AttributeError
                | Some (UserOp g _) \<Rightarrow> g self other
                | Some PipeOperator \<Rightarrow> Inl RecursionError))"

section \<open>The expression x >> y\<close>

text \<open>
  The reflected method of the right operand, if its class has one: \<open>__rrshift__\<close> of
  \<open>PipeVerb\<close> above, or the one found in the class table.
\<close>

definition reflected :: "pystate \<Rightarrow> pyval \<Rightarrow> pyval \<Rightarrow> outcome option" where
  "reflected s other x =
     (if isinstance_PipeVerb other then Some (rrshift s other x)
      else (case lookup_attr s (type_of other) rrshift_attr of
              None \<Rightarrow> None
            | Some g \<Rightarrow> Some (g other x)))"

text \<open>
  Python evaluates \<open>x >> y\<close> with \<open>type(x).__rshift__(x, y)\<close>; when the class of \<open>x\<close> has no
  such method, or it returns \<open>NotImplemented\<close>, and the operands are of different types,
  with \<open>type(y).__rrshift__(y, x)\<close>; when that is missing too or returns
  \<open>NotImplemented\<close>, the expression raises \<open>TypeError\<close>. (The rule that tries the
  reflected method first for a right operand of a subclass that overrides it is left
  out: \<open>PipeVerb\<close> derives from \<open>object\<close> only, and \<open>object\<close> has no \<open>__rshift__\<close>.)
\<close>

definition rshift_expr :: "pystate \<Rightarrow> pyval \<Rightarrow> pyval \<Rightarrow> outcome" where
  "rshift_expr s x y =
     (let fwd = (case lookup_attr s (type_of x) rshift_attr of
                   None \<Rightarrow> Inr PyNotImplemented
                 | Some f \<Rightarrow> call_op s f x y)
      in if fwd \<noteq> Inr PyNotImplemented then fwd
         else if type_of y = type_of x then Inl TypeError
         else (case reflected s y x of
                 None \<Rightarrow> Inl TypeError
               | Some r \<Rightarrow> if r = Inr PyNotImplemented then Inl TypeError else r))"

section \<open>When a pipe expression reaches the verb\<close>



section \<open>Example programs\<close>

text \<open>
  The classes of the examples: \<open>object\<close>; \<open>int\<close>, whose \<open>__rshift__\<close> and \<open>__rrshift__\<close>
  shift integers and return \<open>NotImplemented\<close> for any other operand; the other built-in
  types, which have no \<open>__rshift__\<close>; and the class \<open>Tester\<close> of \<open>test_make_pipesource\<close>,
  whose \<open>__rshift__\<close> returns the string \<open>TESTER\<close> for every operand.
\<close>

definition plain_class :: pyclass where
  "plain_class =
     \<lparr>ancestors = [TObject], rshift_attr = None, orig_rshift_attr = None,
      rrshift_attr = None\<rparr>"

fun int_rshift :: "pyval \<Rightarrow> pyval \<Rightarrow> outcome" where
  "int_rshift (PyInt a) (PyInt b) =
     (if b < 0 then Inl ValueError else Inr (PyInt (a div 2 ^ nat b)))"
| "int_rshift _ _ = Inr PyNotImplemented"

definition int_rrshift :: "pyval \<Rightarrow> pyval \<Rightarrow> outcome" where
  "int_rrshift self other = int_rshift other self"

definition Tester_rshift :: "pyval \<Rightarrow> pyval \<Rightarrow> outcome" where
  "Tester_rshift self other = Inr (PyStr ''TESTER'')"

definition example_classes :: "pytype \<Rightarrow> pyclass" where
  "example_classes t =
     (case t of
        TObject \<Rightarrow> plain_class\<lparr>ancestors := []\<rparr>
      | TInt \<Rightarrow> plain_class\<lparr>rshift_attr := Some (UserOp int_rshift False),
                             rrshift_attr := Some int_rrshift\<rparr>
      | TClass 0 \<Rightarrow> plain_class\<lparr>rshift_attr := Some (UserOp Tester_rshift False)\<rparr>
      | _ \<Rightarrow> plain_class)"

text \<open>
  The functions of the examples: \<open>test_verb\<close> of \<open>test_make_pipesource\<close>, which returns
  the string \<open>VERB\<close>; \<open>append_\<close> of \<open>test_pipeverb\<close>, which raises \<open>NotImplementedError\<close>;
  and two implementations for lists and strings, with the parameter \<open>x=1\<close>.
\<close>

definition test_verb :: pyfunction where
  "test_verb =
     \<lparr>fn_body = (\<lambda>pos kw. Inr (PyStr ''VERB'')), fn_name = ''test_verb'', fn_doc = None\<rparr>"

definition append_generic :: pyfunction where
  "append_generic =
     \<lparr>fn_body = (\<lambda>pos kw. Inl (NotImplementedError ''append is not implemented'')),
      fn_name = ''append_'', fn_doc = Some ''Docstring''\<rparr>"

fun param_x :: "pyval list \<Rightarrow> pykwargs \<Rightarrow> pyval" where
  "param_x (_ # x # _) kw = x"
| "param_x _ kw = (case map_of kw ''x'' of Some v \<Rightarrow> v | None \<Rightarrow> PyInt 1)"

fun append_list :: impl where
  "append_list (PyList xs # rest) kw = Inr (PyList (xs @ [param_x (PyList xs # rest) kw]))"
| "append_list _ kw = Inl TypeError"

fun append_str :: impl where
  "append_str (PyStr t # rest) kw = Inr (PyList [PyStr t, param_x (PyStr t # rest) kw])"
| "append_str _ kw = Inl TypeError"

text \<open>
  Two start states: \<open>tester_state\<close> holds \<open>singledispatch_pipeverb(test_verb)\<close> (the
  dispatch function at address 0, the verb factory at address 1), \<open>append_state\<close> holds
  \<open>append_ = singledispatch(append_generic)\<close> at address 0.
\<close>

definition tester_state :: pystate where
  "tester_state =
     snd (singledispatch_pipeverb \<lparr>classes = example_classes, funcs = []\<rparr> test_verb)"

definition append_state :: pystate where
  "append_state = snd (singledispatch \<lparr>classes = example_classes, funcs = []\<rparr> append_generic)"

section \<open>Lemmas on the store and the class table\<close>

lemmas example_defs = tester_state_def append_state_def singledispatch_pipeverb_def
  singledispatch_def pipeverb_def get_func_def example_classes_def plain_class_def
  test_verb_def append_generic_def Tester_rshift_def int_rrshift_def

lemmas expr_defs = rshift_expr_def call_op_def reflected_def lookup_attr_def Let_def

lemma fst_pipeverb: "fst (pipeverb s f) = length (funcs s)"
  by (simp add: pipeverb_def Let_def)

lemma get_func_pipeverb_old:
  "r < length (funcs s) \<Longrightarrow> get_func (snd (pipeverb s f)) r = get_func s r"
  by (simp add: pipeverb_def get_func_def Let_def nth_append)

lemma get_func_pipeverb_new:
  "get_func s f = Some fo \<Longrightarrow>
   get_func (snd (pipeverb s f)) (length (funcs s)) =
     Some \<lparr>fo_call = VerbFactory f, fo_name = fo_name fo, fo_doc = fo_doc fo,
           fo_register = fo_register fo\<rparr>"
  by (simp add: pipeverb_def get_func_def Let_def)

lemma get_func_valid: "get_func s r = Some fo \<Longrightarrow> r < length (funcs s)"
  by (simp add: get_func_def split: if_splits)

lemma register_twist:
  "A \<noteq> B \<Longrightarrow> register (register s d A a) d B b = register (register s d B b) d A a"
  by (auto simp: register_def get_func_def fun_upd_twist split: option.splits callable.splits)

lemma register_pipeverb_commute:
  "get_func s f = Some fo \<Longrightarrow>
   pipeverb (register s d T g) f =
     (length (funcs s), register (snd (pipeverb s f)) d T g)"
  by (auto simp: register_def pipeverb_def get_func_def Let_def nth_append nth_list_update
      list_update_append1 split: option.splits callable.splits if_splits)

lemma get_func_singledispatch_new:
  "get_func (snd (singledispatch s fn)) (fst (singledispatch s fn)) =
     Some \<lparr>fo_call = Dispatcher (fn_body fn) (\<lambda>_. None), fo_name = fn_name fn,
           fo_doc = fn_doc fn, fo_register = Some (length (funcs s))\<rparr>"
  by (simp add: singledispatch_def get_func_def Let_def)

lemma register_name_doc:
  "map_option fo_name (get_func (register s d T g) r) = map_option fo_name (get_func s r)"
  "map_option fo_doc (get_func (register s d T g) r) = map_option fo_doc (get_func s r)"
  "map_option fo_register (get_func (register s d T g) r) = map_option fo_register (get_func s r)"
  by (auto simp: register_def get_func_def nth_list_update split: option.splits callable.splits)


lemma make_pipesource_marked:
  "lookup_attr s cls rshift_attr = Some f \<Longrightarrow> pipeoperator f \<Longrightarrow> make_pipesource s cls = (None, s)"
  by (simp add: make_pipesource_def)

lemma make_pipesource_patches:
  "lookup_attr s cls rshift_attr = Some f \<Longrightarrow> \<not> pipeoperator f \<Longrightarrow> \<not> immutable_type cls \<Longrightarrow>
   make_pipesource s cls =
     (None, s\<lparr>classes := (classes s)
                 (cls := (classes s cls)\<lparr>orig_rshift_attr := Some f,
                                         rshift_attr := Some PipeOperator\<rparr>)\<rparr>)"
  by (simp add: make_pipesource_def)

lemma lookup_rshift_patched:
  "lookup_attr (s\<lparr>classes := (classes s)
                 (cls := (classes s cls)\<lparr>orig_rshift_attr := Some f,
                                         rshift_attr := Some PipeOperator\<rparr>)\<rparr>) cls rshift_attr
   = Some PipeOperator"
  by (simp add: lookup_attr_def)

lemma lookup_orig_patched:
  "lookup_attr (s\<lparr>classes := (classes s)
                 (cls := (classes s cls)\<lparr>orig_rshift_attr := Some f,
                                         rshift_attr := Some PipeOperator\<rparr>)\<rparr>) cls orig_rshift_attr
   = Some f"
  by (simp add: lookup_attr_def)


section \<open>Deferred operations\<close>







section \<open>Enabling a class\<close>

text \<open>
  Claim C2. For a class with an implementation \<open>f\<close> of \<open>__rshift__\<close> on which a first
  \<open>make_pipesource\<close> went through, a second call raises nothing and changes nothing.
  When \<open>f\<close> was not marked, \<open>__orig_rshift__\<close> is \<open>f\<close> after the first call and still \<open>f\<close>
  after the second (not the closure), and the installed \<open>__rshift__\<close> is the marked
  closure after both.
\<close>

theorem make_pipesource_idempotent:
  "lookup_attr s cls rshift_attr = Some f \<Longrightarrow> fst (make_pipesource s cls) = None \<Longrightarrow>
   make_pipesource (snd (make_pipesource s cls)) cls = (None, snd (make_pipesource s cls))
   \<and> (\<not> pipeoperator f \<longrightarrow>
        lookup_attr (snd (make_pipesource s cls)) cls orig_rshift_attr = Some f
      \<and> lookup_attr (snd (make_pipesource (snd (make_pipesource s cls)) cls)) cls orig_rshift_attr = Some f
      \<and> lookup_attr (snd (make_pipesource (snd (make_pipesource s cls)) cls)) cls rshift_attr =
          Some PipeOperator)"
proof (cases "pipeoperator f")
  case True
  assume "lookup_attr s cls rshift_attr = Some f"
  with True show ?thesis by (simp add: make_pipesource_marked)
next
  case False
  assume look: "lookup_attr s cls rshift_attr = Some f" and ok: "fst (make_pipesource s cls) = None"
  from look False ok have mut: "\<not> immutable_type cls"
    by (auto simp: make_pipesource_def)
  let ?s1 = "s\<lparr>classes := (classes s)
                 (cls := (classes s cls)\<lparr>orig_rshift_attr := Some f,
                                         rshift_attr := Some PipeOperator\<rparr>)\<rparr>"
  have first: "make_pipesource s cls = (None, ?s1)"
    using look False mut by (rule make_pipesource_patches)
  have second: "make_pipesource ?s1 cls = (None, ?s1)"
    by (rule make_pipesource_marked [OF lookup_rshift_patched]) simp
  show ?thesis
    using False first second lookup_orig_patched [of s cls f] lookup_rshift_patched [of s cls f]
    by simp
qed

text \<open>
  \<open>make_pipesource(Tester)\<close> twice, as in \<open>test_make_pipesource\<close>.
\<close>

theorem make_pipesource_idempotent_witness:
  "lookup_attr tester_state (TClass 0) rshift_attr = Some (UserOp Tester_rshift False)
   \<and> fst (make_pipesource tester_state (TClass 0)) = None
   \<and> \<not> pipeoperator (UserOp Tester_rshift False)
   \<and> make_pipesource (snd (make_pipesource tester_state (TClass 0))) (TClass 0) =
        (None, snd (make_pipesource tester_state (TClass 0)))
   \<and> lookup_attr (snd (make_pipesource (snd (make_pipesource tester_state (TClass 0))) (TClass 0)))
        (TClass 0) orig_rshift_attr = Some (UserOp Tester_rshift False)"
proof -
  have l: "lookup_attr tester_state (TClass 0) rshift_attr = Some (UserOp Tester_rshift False)"
    by (simp add: lookup_attr_def example_defs Let_def)
  have ok: "fst (make_pipesource tester_state (TClass 0)) = None"
    by (simp add: make_pipesource_def l)
  show ?thesis
    using l ok make_pipesource_idempotent [OF l ok] by simp
qed









section \<open>Verb factories and registration\<close>

text \<open>
  Claim C5. The verb factory \<open>pipeverb(f)\<close> has the name and the docstring of \<open>f\<close>. The
  dispatch function \<open>singledispatch(fn)\<close> has the docstring of its default implementation
  \<open>fn\<close>, and no registration, made directly or through the attribute \<open>register\<close> of any
  function object, changes the docstring of any function object.
\<close>

theorem metadata_preserved:
  "(get_func s f = Some fo \<longrightarrow>
      map_option fo_name (get_func (snd (pipeverb s f)) (fst (pipeverb s f))) = Some (fo_name fo)
    \<and> map_option fo_doc (get_func (snd (pipeverb s f)) (fst (pipeverb s f))) = Some (fo_doc fo))
   \<and> map_option fo_doc (get_func (snd (singledispatch s fn)) (fst (singledispatch s fn))) =
       Some (fn_doc fn)
   \<and> map_option fo_doc (get_func (register t d T g) r) = map_option fo_doc (get_func t r)
   \<and> map_option fo_doc (get_func (snd (call_register t f' T g)) r) =
       map_option fo_doc (get_func t r)"
proof -
  have a: "map_option fo_name (get_func (snd (pipeverb s f)) (fst (pipeverb s f))) = Some (fo_name fo)
    \<and> map_option fo_doc (get_func (snd (pipeverb s f)) (fst (pipeverb s f))) = Some (fo_doc fo)"
    if "get_func s f = Some fo"
    using that by (simp add: fst_pipeverb get_func_pipeverb_new)
  have b: "map_option fo_doc (get_func (snd (singledispatch s fn)) (fst (singledispatch s fn))) =
       Some (fn_doc fn)"
    by (simp add: get_func_singledispatch_new)
  have c: "map_option fo_doc (get_func (snd (call_register t f' T g)) r) =
       map_option fo_doc (get_func t r)"
    by (simp add: call_register_def register_name_doc split: option.splits)
  show ?thesis
    using a b c register_name_doc(2) [of t d T g r] by blast
qed

text \<open>
  \<open>test_maintain_docstring\<close>: \<open>append = pipeverb(append_)\<close> has the name and docstring of
  \<open>append_\<close>, and the docstring of \<open>append_\<close> stays after \<open>register(list)\<close>.
\<close>

theorem metadata_preserved_witness:
  "get_func append_state 0 =
      Some \<lparr>fo_call = Dispatcher (fn_body append_generic) (\<lambda>_. None), fo_name = ''append_'',
            fo_doc = Some ''Docstring'', fo_register = Some 0\<rparr>
   \<and> map_option fo_name (get_func (snd (pipeverb append_state 0)) (fst (pipeverb append_state 0))) =
       Some ''append_''
   \<and> map_option fo_doc (get_func (snd (pipeverb append_state 0)) (fst (pipeverb append_state 0))) =
       Some (Some ''Docstring'')
   \<and> map_option fo_doc (get_func (register append_state 0 TList append_list) 0) =
       Some (Some ''Docstring'')"
proof -
  have g: "get_func append_state 0 =
      Some \<lparr>fo_call = Dispatcher (fn_body append_generic) (\<lambda>_. None), fo_name = ''append_'',
            fo_doc = Some ''Docstring'', fo_register = Some 0\<rparr>"
    by (simp add: append_state_def singledispatch_def get_func_def Let_def append_generic_def)
  let ?fo = "\<lparr>fo_call = Dispatcher (fn_body append_generic) (\<lambda>_. None), fo_name = ''append_'',
            fo_doc = Some ''Docstring'', fo_register = Some 0\<rparr>"
  have m: "map_option fo_name (get_func (snd (pipeverb append_state 0)) (fst (pipeverb append_state 0))) =
       Some (fo_name ?fo)"
    and n: "map_option fo_doc (get_func (snd (pipeverb append_state 0)) (fst (pipeverb append_state 0))) =
       Some (fo_doc ?fo)"
    and k: "map_option fo_doc (get_func (register append_state 0 TList append_list) 0) =
       map_option fo_doc (get_func append_state 0)"
    using g metadata_preserved [of append_state 0 ?fo append_generic append_state 0 TList
        append_list 0 0]
    by blast+
  show ?thesis
    using g m n k by simp
qed

text \<open>
  Claim C6. When \<open>f\<close> has the attribute \<open>register\<close> of the dispatch function \<open>d\<close>, the verb
  factory \<open>pipeverb(f)\<close> has the same attribute; registering through the factory and
  through \<open>f\<close> give the same state; and registering before \<open>pipeverb(f)\<close> or after it
  gives the same factory and the same state, hence the same outcome for every subject
  piped afterwards.
\<close>

theorem register_reexposed:
  "get_func s f = Some fo \<Longrightarrow> fo_register fo = Some d \<Longrightarrow>
   map_option fo_register (get_func (snd (pipeverb s f)) (fst (pipeverb s f))) = Some (Some d)
   \<and> call_register (snd (pipeverb s f)) (fst (pipeverb s f)) T g =
       call_register (snd (pipeverb s f)) f T g
   \<and> pipeverb (snd (call_register s f T g)) f =
       (fst (pipeverb s f), snd (call_register (snd (pipeverb s f)) (fst (pipeverb s f)) T g))
   \<and> rshift_expr (snd (pipeverb (snd (call_register s f T g)) f)) x (PipeVerb f as kw) =
       rshift_expr (snd (call_register (snd (pipeverb s f)) (fst (pipeverb s f)) T g)) x
         (PipeVerb f as kw)"
proof -
  assume f: "get_func s f = Some fo" and d: "fo_register fo = Some d"
  let ?v = "fst (pipeverb s f)" and ?s' = "snd (pipeverb s f)"
  have v: "?v = length (funcs s)" by (rule fst_pipeverb)
  have new: "get_func ?s' ?v = Some \<lparr>fo_call = VerbFactory f, fo_name = fo_name fo,
      fo_doc = fo_doc fo, fo_register = Some d\<rparr>"
    using get_func_pipeverb_new [OF f] d by (simp add: v)
  have old: "get_func ?s' f = Some fo"
    using get_func_pipeverb_old [OF get_func_valid [OF f]] f by simp
  have via_f: "call_register s f T g = (None, register s d T g)"
    by (simp add: call_register_def f d)
  have via_v: "call_register ?s' ?v T g = (None, register ?s' d T g)"
    by (simp add: call_register_def new)
  have via_f': "call_register ?s' f T g = (None, register ?s' d T g)"
    by (simp add: call_register_def old d)
  have comm: "pipeverb (register s d T g) f = (?v, register ?s' d T g)"
    using register_pipeverb_commute [OF f] by (simp add: v)
  show ?thesis
    by (simp add: new via_f via_v via_f' comm)
qed

text \<open>
  \<open>test_pipeverb\<close>: with \<open>append_list\<close> registered for \<open>list\<close> before or after
  \<open>append = pipeverb(append_)\<close>, \<open>[] >> append()\<close> is \<open>[1]\<close>.
\<close>

theorem register_reexposed_witness:
  "get_func append_state 0 =
      Some \<lparr>fo_call = Dispatcher (fn_body append_generic) (\<lambda>_. None), fo_name = ''append_'',
            fo_doc = Some ''Docstring'', fo_register = Some 0\<rparr>
   \<and> call_register (snd (pipeverb append_state 0)) (fst (pipeverb append_state 0)) TList append_list =
       call_register (snd (pipeverb append_state 0)) 0 TList append_list
   \<and> rshift_expr (snd (pipeverb (snd (call_register append_state 0 TList append_list)) 0))
        (PyList []) (PipeVerb 0 [] []) = Inr (PyList [PyInt 1])
   \<and> rshift_expr (snd (call_register (snd (pipeverb append_state 0)) (fst (pipeverb append_state 0))
          TList append_list)) (PyList []) (PipeVerb 0 [] []) = Inr (PyList [PyInt 1])"
proof -
  have g: "get_func append_state 0 =
      Some \<lparr>fo_call = Dispatcher (fn_body append_generic) (\<lambda>_. None), fo_name = ''append_'',
            fo_doc = Some ''Docstring'', fo_register = Some 0\<rparr>"
    by (simp add: append_state_def singledispatch_def get_func_def Let_def append_generic_def)
  have r: "fo_register \<lparr>fo_call = Dispatcher (fn_body append_generic) (\<lambda>_. None),
            fo_name = ''append_'', fo_doc = Some ''Docstring'', fo_register = Some 0\<rparr> = Some 0"
    by simp
  have e: "rshift_expr (snd (pipeverb (snd (call_register append_state 0 TList append_list)) 0))
        (PyList []) (PipeVerb 0 [] []) = Inr (PyList [PyInt 1])"
    by (simp add: example_defs expr_defs call_register_def register_def call_def dispatch_def)
  show ?thesis
    using g e register_reexposed [OF g r, of TList append_list "PyList []" "[]" "[]"]
    by simp
qed



text \<open>
  Claim C8. For distinct types \<open>A\<close> and \<open>B\<close>, registering \<open>a\<close> for \<open>A\<close> then \<open>b\<close> for \<open>B\<close>, or
  \<open>b\<close> for \<open>B\<close> then \<open>a\<close> for \<open>A\<close>, gives the same state, so every call and every pipe
  expression has the same outcome; on a dispatch function a subject of type \<open>A\<close> runs
  \<open>a\<close> and a subject of type \<open>B\<close> runs \<open>b\<close> in both orders.
\<close>

theorem registration_order_independent:
  "A \<noteq> B \<Longrightarrow>
   register (register s d A a) d B b = register (register s d B b) d A a
   \<and> call (register (register s d A a) d B b) d (x # as) kw =
       call (register (register s d B b) d A a) d (x # as) kw
   \<and> rshift_expr (register (register s d A a) d B b) x (PipeVerb d as kw) =
       rshift_expr (register (register s d B b) d A a) x (PipeVerb d as kw)
   \<and> (\<forall>dflt reg. map_option fo_call (get_func s d) = Some (Dispatcher dflt reg) \<longrightarrow>
        (type_of x = A \<longrightarrow>
           call (register (register s d A a) d B b) d (x # as) kw = a (x # as) kw
         \<and> call (register (register s d B b) d A a) d (x # as) kw = a (x # as) kw)
      \<and> (type_of x = B \<longrightarrow>
           call (register (register s d A a) d B b) d (x # as) kw = b (x # as) kw
         \<and> call (register (register s d B b) d A a) d (x # as) kw = b (x # as) kw))"
proof -
  assume ne: "A \<noteq> B"
  have tw: "register (register s d A a) d B b = register (register s d B b) d A a"
    using ne by (rule register_twist)
  have res: "call (register (register s d A a) d B b) d (x # as) kw =
      (if type_of x = B then b (x # as) kw else a (x # as) kw)"
    if "map_option fo_call (get_func s d) = Some (Dispatcher dflt reg)"
      and "type_of x = A \<or> type_of x = B" for dflt reg
    using that ne
    by (auto simp: register_def get_func_def call_def dispatch_def split: if_splits)
  show ?thesis
    using ne res by (auto simp: tw)
qed

text \<open>
  \<open>list\<close> and \<open>str\<close> registered on \<open>append_\<close> in both orders: \<open>append_([])\<close> is \<open>[1]\<close>.
\<close>

theorem registration_order_independent_witness:
  "TList \<noteq> TStr
   \<and> register (register append_state 0 TList append_list) 0 TStr append_str =
       register (register append_state 0 TStr append_str) 0 TList append_list
   \<and> call (register (register append_state 0 TStr append_str) 0 TList append_list) 0
       [PyList []] [] = Inr (PyList [PyInt 1])
   \<and> call (register (register append_state 0 TList append_list) 0 TStr append_str) 0
       [PyList []] [] = Inr (PyList [PyInt 1])"
proof -
  have ne: "TList \<noteq> TStr" by simp
  have c: "call (register (register append_state 0 TList append_list) 0 TStr append_str) 0
       [PyList []] [] = Inr (PyList [PyInt 1])"
    by (simp add: example_defs register_def call_def dispatch_def)
  show ?thesis
    using ne c registration_order_independent [OF ne, of append_state 0 append_list append_str "PyList []" "[]" "[]"]
    by simp
qed

end
